theory Spec2Isabelle
  imports Main "HOL-Library.Word" "HOL-Library.Monad_Syntax"
begin

section \<open>dep2bazel: from a locked Go dependency to a go_repository rule\<close>

text \<open>
  A shallow embedding of \<^verbatim>\<open>dep2bazel/main.go\<close>. Go strings are byte strings, so a Go
  \<^verbatim>\<open>string\<close> is a \<^typ>\<open>string\<close> (a list of 8-bit characters) and a \<^verbatim>\<open>[]byte\<close> is a list of
  8-bit words. A run-time panic of the Go program (an index or a slice bound out of
  range) is the value \<open>None\<close> of an option type; an \<^verbatim>\<open>error\<close> returned by a function is the
  left summand of a sum type.
\<close>

type_synonym byte = "8 word"

subsection \<open>The parts of package strings and path that the program calls\<close>

text \<open>\<^verbatim>\<open>strings.HasPrefix(s, prefix)\<close>:
  \<^verbatim>\<open>len(s) >= len(prefix) && s[0:len(prefix)] == prefix\<close>.\<close>

definition HasPrefix :: "string \<Rightarrow> string \<Rightarrow> bool" where
  "HasPrefix s prefix = (length prefix \<le> length s \<and> take (length prefix) s = prefix)"

text \<open>\<^verbatim>\<open>strings.Split(s, sep)\<close> for a separator of one byte: the pieces of \<open>s\<close> between
  the occurrences of the separator, in order; one piece more than there are separators,
  so the result of splitting the empty string is the list holding the empty string.
  \<open>cur\<close> is the piece being read.\<close>

fun genSplit :: "string \<Rightarrow> string \<Rightarrow> char \<Rightarrow> string list" where
  "genSplit cur [] sep = [cur]"
| "genSplit cur (c # cs) sep =
     (if c = sep then cur # genSplit [] cs sep else genSplit (cur @ [c]) cs sep)"

definition Split :: "string \<Rightarrow> char \<Rightarrow> string list" where
  "Split s sep = genSplit [] s sep"

text \<open>\<^verbatim>\<open>strings.Join(elems, sep)\<close>.\<close>

fun Join :: "string list \<Rightarrow> string \<Rightarrow> string" where
  "Join [] sep = []"
| "Join [x] sep = x"
| "Join (x # y # ys) sep = x @ sep @ Join (y # ys) sep"

text \<open>\<^verbatim>\<open>strings.NewReplacer("-", "_", ".", "_").Replace(name)\<close>: all old strings are single
  bytes, so the replacer maps byte by byte.\<close>

definition Replace :: "string \<Rightarrow> string" where
  "Replace name =
     map (\<lambda>c. if c = CHR ''-'' then CHR ''_'' else if c = CHR ''.'' then CHR ''_'' else c) name"

text \<open>\<^verbatim>\<open>path.Split(path)\<close>: splits immediately after the final slash into a directory and a
  file name; with no slash the directory is empty.\<close>

definition path_Split :: "string \<Rightarrow> string \<times> string" where
  "path_Split p =
     (let file = rev (takeWhile (\<lambda>c. c \<noteq> CHR ''/'') (rev p))
      in (take (length p - length file) p, file))"

text \<open>Go's index expression \<^verbatim>\<open>a[i]\<close> and slice expression \<^verbatim>\<open>a[i:]\<close>: both panic out of
  range.\<close>

definition index :: "'a list \<Rightarrow> nat \<Rightarrow> 'a option" where
  "index a i = (if i < length a then Some (a ! i) else None)"

definition slice_from :: "'a list \<Rightarrow> nat \<Rightarrow> 'a list option" where
  "slice_from a i = (if i \<le> length a then Some (drop i a) else None)"

subsection \<open>Naming: bazelName\<close>

text \<open>The loop \<^verbatim>\<open>for i := len(hostparts) - 1; i >= 0; i-- { slice = append(slice, hostparts[i]) }\<close>.
  The counter of the model is \<open>i + 1\<close>, so that the loop stops at \<open>0\<close>.\<close>

fun reverse_loop :: "string list \<Rightarrow> nat \<Rightarrow> string list \<Rightarrow> string list option" where
  "reverse_loop hostparts 0 slice' = Some slice'"
| "reverse_loop hostparts (Suc i) slice' =
     (case index hostparts i of
        None \<Rightarrow> None
      | Some h \<Rightarrow> reverse_loop hostparts i (slice' @ [h]))"

definition bazelName :: "string \<Rightarrow> string option" where
  "bazelName importpath =
     (let parts = Split importpath CHR ''/'' in
      case index parts 0 of
        None \<Rightarrow> None
      | Some host \<Rightarrow>
          let hostparts = Split host CHR ''.'' in
          (case reverse_loop hostparts (length hostparts) [] of
             None \<Rightarrow> None
           | Some slice' \<Rightarrow>
               (case slice_from parts 1 of
                  None \<Rightarrow> None
                | Some rest \<Rightarrow> Some (Replace (Join (slice' @ rest) ''_'')))))"

text \<open>The reference definition of the rule name, in the words of the specification:
  split the import path on \<open>/\<close>; split the first segment on \<open>.\<close>; reverse those host
  labels; append the remaining path segments; join all with \<open>_\<close>; then replace every
  \<open>-\<close> and \<open>.\<close> with \<open>_\<close>.\<close>

definition Name_spec :: "string \<Rightarrow> string" where
  "Name_spec importPath =
     (let segments = Split importPath CHR ''/'';
          labels = Split (hd segments) CHR ''.''
      in map (\<lambda>c. if c \<in> {CHR ''-'', CHR ''.''} then CHR ''_'' else c)
           (Join (rev labels @ tl segments) ''_''))"

subsection \<open>Package regexp, as far as the two gopkg.in patterns need it\<close>

text \<open>
  The syntax of the regular expressions the program compiles: literal bytes, classes (lists
  of inclusive byte ranges), concatenation, alternation \<open>r|s\<close>, the greedy operators \<open>r?\<close>,
  \<open>r*\<close> and \<open>r{0,n}\<close>, and capturing groups numbered from 1. A non-capturing group
  \<^verbatim>\<open>(?:r)\<close> is \<open>r\<close> itself. Both patterns are anchored by \<^verbatim>\<open>^\<close> and \<^verbatim>\<open>$\<close>, which
  \<open>FindStringSubmatch\<close> below builds in; every class is a set of ASCII bytes, so matching
  byte by byte agrees with Go's matching rune by rune.
\<close>

datatype regex =
    Lit char
  | Class "(char \<times> char) list"
  | Empty
  | Cat regex regex
  | Alt regex regex
  | Opt regex
  | Star regex
  | Rep regex nat
  | Group nat regex

definition in_class :: "(char \<times> char) list \<Rightarrow> char \<Rightarrow> bool" where
  "in_class ranges c =
     list_ex (\<lambda>(lo, hi). (of_char lo :: nat) \<le> of_char c \<and> (of_char c :: nat) \<le> of_char hi) ranges"

text \<open>
  Go's matcher returns the match that a backtracking search finds first (leftmost-first:
  an alternation prefers its left branch, a greedy operator prefers one more iteration).
  The model is that search. A thread is the captured substrings so far and the input still
  to be read; \<open>run r t\<close> lists, in order of preference, the threads in which \<open>r\<close> has matched
  a prefix of the input of \<open>t\<close>.

  An iteration of \<open>r*\<close> that reads nothing is dropped, and the iterations are bounded by
  the length of the input: every iteration that is kept reads at least one byte. (The
  bodies of the starred expressions of the two patterns never match the empty string.)
\<close>

type_synonym thread = "string list \<times> string"

fun star_loop :: "nat \<Rightarrow> (thread \<Rightarrow> thread list) \<Rightarrow> thread \<Rightarrow> thread list" where
  "star_loop 0 step t = [t]"
| "star_loop (Suc n) step t =
     concat (map (star_loop n step)
       (filter (\<lambda>t'. length (snd t') < length (snd t)) (step t))) @ [t]"

fun rep_loop :: "nat \<Rightarrow> (thread \<Rightarrow> thread list) \<Rightarrow> thread \<Rightarrow> thread list" where
  "rep_loop 0 step t = [t]"
| "rep_loop (Suc n) step t = concat (map (rep_loop n step) (step t)) @ [t]"

primrec run :: "regex \<Rightarrow> thread \<Rightarrow> thread list" where
  "run (Lit c) =
     (\<lambda>(m, s). case s of [] \<Rightarrow> [] | x # xs \<Rightarrow> if x = c then [(m, xs)] else [])"
| "run (Class rs) =
     (\<lambda>(m, s). case s of [] \<Rightarrow> [] | x # xs \<Rightarrow> if in_class rs x then [(m, xs)] else [])"
| "run Empty = (\<lambda>t. [t])"
| "run (Cat r1 r2) = (\<lambda>t. concat (map (run r2) (run r1 t)))"
| "run (Alt r1 r2) = (\<lambda>t. run r1 t @ run r2 t)"
| "run (Opt r) = (\<lambda>t. run r t @ [t])"
| "run (Star r) = (\<lambda>t. star_loop (length (snd t)) (run r) t)"
| "run (Rep r n) = rep_loop n (run r)"
| "run (Group i r) =
     (\<lambda>(m, s). map (\<lambda>(m', s'). (m'[i := take (length s - length s') s], s')) (run r (m, s)))"

text \<open>\<^verbatim>\<open>(*Regexp).NumSubexp\<close>: the number of capturing groups.\<close>

primrec NumSubexp :: "regex \<Rightarrow> nat" where
  "NumSubexp (Lit c) = 0"
| "NumSubexp (Class rs) = 0"
| "NumSubexp Empty = 0"
| "NumSubexp (Cat r1 r2) = NumSubexp r1 + NumSubexp r2"
| "NumSubexp (Alt r1 r2) = NumSubexp r1 + NumSubexp r2"
| "NumSubexp (Opt r) = NumSubexp r"
| "NumSubexp (Star r) = NumSubexp r"
| "NumSubexp (Rep r n) = NumSubexp r"
| "NumSubexp (Group i r) = Suc (NumSubexp r)"

text \<open>\<^verbatim>\<open>re.FindStringSubmatch(s)\<close> for a pattern \<^verbatim>\<open>^re$\<close>: \<open>None\<close> is Go's \<^verbatim>\<open>nil\<close> (no match);
  otherwise the slice holds the whole match at index 0 and the text of group \<open>i\<close> at
  index \<open>i\<close>, the empty string for a group that took no part in the match.\<close>

definition FindStringSubmatch :: "regex \<Rightarrow> string \<Rightarrow> string list option" where
  "FindStringSubmatch re s =
     (case filter (\<lambda>(m, rest). rest = []) (run re (replicate (Suc (NumSubexp re)) [], s)) of
        [] \<Rightarrow> None
      | (m, rest) # ts \<Rightarrow> Some (m[0 := s]))"

definition Seq :: "regex list \<Rightarrow> regex" where
  "Seq rs = foldr Cat rs Empty"

definition Str :: "string \<Rightarrow> regex" where
  "Str s = Seq (map Lit s)"

definition Plus :: "regex \<Rightarrow> regex" where
  "Plus r = Cat r (Star r)"

definition lower :: "(char \<times> char) list" where
  "lower = [(CHR ''a'', CHR ''z'')]"

definition upper :: "(char \<times> char) list" where
  "upper = [(CHR ''A'', CHR ''Z'')]"

definition digit :: "(char \<times> char) list" where
  "digit = [(CHR ''0'', CHR ''9'')]"

definition only :: "char \<Rightarrow> (char \<times> char) list" where
  "only c = [(c, c)]"

text \<open>The version tag shared by both patterns:
  \<^verbatim>\<open>(?:v0|v[1-9][0-9]*)(?:\.0|\.[1-9][0-9]*){0,2}(?:-unstable)?\<close>.\<close>

definition version :: regex where
  "version = Seq [
     Alt (Str ''v0'') (Seq [Lit CHR ''v'', Class [(CHR ''1'', CHR ''9'')], Star (Class digit)]),
     Rep (Alt (Str ''.0'')
              (Seq [Lit CHR ''.'', Class [(CHR ''1'', CHR ''9'')], Star (Class digit)])) 2,
     Opt (Str ''-unstable'')]"

text \<open>\<^verbatim>\<open>^/(?:([a-z0-9][-a-z0-9]+)/)?(VERSION)/([a-zA-Z][-a-zA-Z0-9]*)(?:\.git)?((?:/[a-zA-Z][-a-zA-Z0-9]*)*)$\<close>\<close>

definition gopkgInPatternOld :: regex where
  "gopkgInPatternOld = Seq [
     Lit CHR ''/'',
     Opt (Seq [Group 1 (Seq [Class (lower @ digit), Plus (Class (only CHR ''-'' @ lower @ digit))]),
               Lit CHR ''/'']),
     Group 2 version,
     Lit CHR ''/'',
     Group 3 (Seq [Class (lower @ upper), Star (Class (only CHR ''-'' @ lower @ upper @ digit))]),
     Opt (Str ''.git''),
     Group 4 (Star (Seq [Lit CHR ''/'', Class (lower @ upper),
                         Star (Class (only CHR ''-'' @ lower @ upper @ digit))]))]"

text \<open>\<^verbatim>\<open>^/(?:([a-zA-Z0-9][-a-zA-Z0-9]+)/)?([a-zA-Z][-.a-zA-Z0-9]*)\.(VERSION)(?:\.git)?((?:/[a-zA-Z0-9][-.a-zA-Z0-9]*)*)$\<close>\<close>

definition gopkgInPatternNew :: regex where
  "gopkgInPatternNew = Seq [
     Lit CHR ''/'',
     Opt (Seq [Group 1 (Seq [Class (lower @ upper @ digit),
                             Plus (Class (only CHR ''-'' @ lower @ upper @ digit))]),
               Lit CHR ''/'']),
     Group 2 (Seq [Class (lower @ upper),
                   Star (Class (only CHR ''-'' @ only CHR ''.'' @ lower @ upper @ digit))]),
     Lit CHR ''.'',
     Group 3 version,
     Opt (Str ''.git''),
     Group 4 (Star (Seq [Lit CHR ''/'', Class (lower @ upper @ digit),
                         Star (Class (only CHR ''-'' @ only CHR ''.'' @ lower @ upper @ digit))]))]"

subsection \<open>URL remapper: remapURL\<close>

text \<open>The code both branches of the gopkg.in case share after the match:
  \<^verbatim>\<open>repoUser := m[1]; repoName := m[2]\<close> and the two returns.\<close>

definition github_url :: "string list \<Rightarrow> string option" where
  "github_url m = do {
     repoUser \<leftarrow> index m 1;
     repoName \<leftarrow> index m 2;
     if repoUser \<noteq> [] then Some (''https://github.com/'' @ repoUser @ ''/'' @ repoName)
     else Some (''https://github.com/go-'' @ repoName @ ''/'' @ repoName)
   }"

text \<open>\<^verbatim>\<open>m[2], m[3] = m[3], m[2]\<close>\<close>

definition swap_2_3 :: "string list \<Rightarrow> string list option" where
  "swap_2_3 m = do {
     m3 \<leftarrow> index m 3;
     m2 \<leftarrow> index m 2;
     Some (m[2 := m3, 3 := m2])
   }"

definition remapURL :: "string \<Rightarrow> string option" where
  "remapURL url =
     (if HasPrefix url ''https://gopkg.in/'' then do {
        tail \<leftarrow> slice_from url (length ''https://gopkg.in'');
        case FindStringSubmatch gopkgInPatternNew tail of
          Some m \<Rightarrow> github_url m
        | None \<Rightarrow>
            (case FindStringSubmatch gopkgInPatternOld tail of
               None \<Rightarrow> Some url
             | Some m \<Rightarrow> do { m' \<leftarrow> swap_2_3 m; github_url m' })
      }
      else if HasPrefix url ''https://go.googlesource.com/'' then
        Some (''https://github.com/golang/'' @ snd (path_Split url))
      else Some url)"

subsection \<open>Errors and repository descriptors\<close>

text \<open>
  A Go \<^verbatim>\<open>error\<close> value, tagged with the call that produced it and carrying its message.
  The program itself creates one error only, \<^verbatim>\<open>fmt.Errorf("Unknown server")\<close>; all others
  come from the libraries and are passed on unchanged.
\<close>

datatype error =
    TempFileError string
  | GetError string
  | CopyError string
  | ReadFileError string
  | GzipError string
  | TarError string
  | Errorf string

record RemoteTarball =
  url :: string
  stripPrefix :: string
  sha256 :: string

record RemoteGitRepo =
  revision :: string

text \<open>The interface \<^verbatim>\<open>RemoteRepository\<close> has the two implementations.\<close>

datatype RemoteRepository = Tarball RemoteTarball | GitRepo RemoteGitRepo

subsection \<open>The outside world\<close>

text \<open>
  The state the program acts on is the file system and a clock that counts the calls made
  to the operating system and the network: every such call advances it, so a function that
  leaves the world as it found it has made none. What the world answers is given by an
  oracle \<open>env\<close>, indexed by the time of the call: the same URL may be fetched twice with
  different outcomes.

  \<^item> \<open>TempFile_at\<close>: the outcome of \<^verbatim>\<open>ioutil.TempFile("", "")\<close>, an error message or the name
    of the new, empty file.
  \<^item> \<open>Get_at\<close>: the outcome of \<^verbatim>\<open>http.Get(url)\<close>, an error message or the response, with
    its status code and its body. As in Go, a response with a status other than 2xx is no
    error: \<^verbatim>\<open>http.Get\<close> returns it with a nil error, and its body is that of the error page.
  \<^item> \<open>Copy_at\<close>: if \<^verbatim>\<open>io.Copy\<close> fails, the number of bytes it had written and its error
    message.
  \<^item> \<open>ReadFile_at\<close>: the error message of \<^verbatim>\<open>ioutil.ReadFile\<close>, if it fails although the
    file exists.
  \<^item> \<open>gzip_tar\<close>: what \<^verbatim>\<open>gzip.NewReader\<close> and \<^verbatim>\<open>tar.NewReader\<close> make of a byte sequence: the
    error message of \<^verbatim>\<open>gzip.NewReader\<close> (a bad gzip header), or the outcomes of the successive
    calls of \<^verbatim>\<open>Next\<close> on the tar reader, each an error message (corrupt data) or the
    header of the next entry. After the last outcome \<^verbatim>\<open>Next\<close> returns \<^verbatim>\<open>io.EOF\<close>.
  \<^item> \<open>Sum256\<close>: the function \<^verbatim>\<open>sha256.Sum256\<close>.
\<close>

record Header =
  Name :: string

record Response =
  StatusCode :: nat
  Body :: "byte list"

type_synonym tar_Reader = "(string + Header) list"

record world =
  files :: "string \<rightharpoonup> byte list"
  clock :: nat

record env =
  TempFile_at :: "nat \<Rightarrow> string + string"
  Get_at :: "nat \<Rightarrow> string \<Rightarrow> string + Response"
  Copy_at :: "nat \<Rightarrow> (nat \<times> string) option"
  ReadFile_at :: "nat \<Rightarrow> string option"
  gzip_tar :: "byte list \<Rightarrow> string + tar_Reader"
  Sum256 :: "byte list \<Rightarrow> byte list"

definition tick :: "world \<Rightarrow> world" where
  "tick w = w\<lparr>clock := Suc (clock w)\<rparr>"

definition TempFile :: "env \<Rightarrow> world \<Rightarrow> (error + string) \<times> world" where
  "TempFile e w =
     (case TempFile_at e (clock w) of
        Inl msg \<Rightarrow> (Inl (TempFileError msg), tick w)
      | Inr name \<Rightarrow> (Inr name, tick (w\<lparr>files := (files w)(name \<mapsto> [])\<rparr>)))"

definition Remove :: "string \<Rightarrow> world \<Rightarrow> world" where
  "Remove name w = tick (w\<lparr>files := (files w)(name := None)\<rparr>)"

definition ReadFile :: "env \<Rightarrow> string \<Rightarrow> world \<Rightarrow> (error + byte list) \<times> world" where
  "ReadFile e name w =
     (case ReadFile_at e (clock w) of
        Some msg \<Rightarrow> (Inl (ReadFileError msg), tick w)
      | None \<Rightarrow>
          (case files w name of
             None \<Rightarrow> (Inl (ReadFileError ''no such file or directory''), tick w)
           | Some b \<Rightarrow> (Inr b, tick w)))"

definition NewReader :: "env \<Rightarrow> byte list \<Rightarrow> error + tar_Reader" where
  "NewReader e b = (case gzip_tar e b of Inl msg \<Rightarrow> Inl (GzipError msg) | Inr r \<Rightarrow> Inr r)"

definition Next :: "tar_Reader \<Rightarrow> (error + Header) \<times> tar_Reader" where
  "Next r =
     (case r of
        [] \<Rightarrow> (Inl (TarError ''EOF''), [])
      | Inl msg # r' \<Rightarrow> (Inl (TarError msg), r')
      | Inr hdr # r' \<Rightarrow> (Inr hdr, r'))"

text \<open>\<^verbatim>\<open>fmt.Sprintf("%x", digest)\<close> for a byte array: two lower-case hexadecimal digits for
  each byte.\<close>

definition hex_digit :: "nat \<Rightarrow> char" where
  "hex_digit n = ''0123456789abcdef'' ! (n mod 16)"

definition Sprintf_x :: "byte list \<Rightarrow> string" where
  "Sprintf_x bs = concat (map (\<lambda>b. [hex_digit (unat b div 16), hex_digit (unat b mod 16)]) bs)"

subsection \<open>Archive prober: downloadFile, githubTarball, googlesourceTarball, tryTarball\<close>

text \<open>
  In the functions below the parameters \<^verbatim>\<open>url\<close> and \<^verbatim>\<open>revision\<close> of the source are called
  \<open>hostURL\<close> and \<open>revision'\<close>: the fields of the records have the source's names. A function that
  returns \<^verbatim>\<open>(*RemoteTarball, error)\<close> returns a sum here, \<open>Inl\<close> for a non-nil error (what
  comes with a non-nil error is never read by a caller).

  \<open>downloadFile\<close> writes the body of the response to the open file \<open>f\<close>, here the file's
  name, and never looks at the status of the response. When \<^verbatim>\<open>io.Copy\<close> fails the file holds
  the bytes written until then.
\<close>

definition downloadFile :: "env \<Rightarrow> string \<Rightarrow> string \<Rightarrow> world \<Rightarrow> error option \<times> world" where
  "downloadFile e f u w =
     (case Get_at e (clock w) u of
        Inl msg \<Rightarrow> (Some (GetError msg), tick w)
      | Inr resp \<Rightarrow>
          (case Copy_at e (clock (tick w)) of
             Some (n, msg) \<Rightarrow>
               (Some (CopyError msg),
                tick (tick (w\<lparr>files := (files w)(f \<mapsto> take n (Body resp))\<rparr>)))
           | None \<Rightarrow> (None, tick (tick (w\<lparr>files := (files w)(f \<mapsto> Body resp)\<rparr>)))))"

text \<open>The part of \<open>githubTarball\<close> that runs between \<^verbatim>\<open>defer os.Remove(filename)\<close> and the
  return: download, read back, open the archive, take the second entry, hash.\<close>

definition inspect :: "env \<Rightarrow> string \<Rightarrow> string \<Rightarrow> world \<Rightarrow> (error + RemoteTarball) \<times> world" where
  "inspect e filename downloadURL w =
     (case downloadFile e filename downloadURL w of
        (Some err, w1) \<Rightarrow> (Inl err, w1)
      | (None, w1) \<Rightarrow>
          (case ReadFile e filename w1 of
             (Inl err, w2) \<Rightarrow> (Inl err, w2)
           | (Inr b, w2) \<Rightarrow>
               (case NewReader e b of
                  Inl err \<Rightarrow> (Inl err, w2)
                | Inr tarReader \<Rightarrow>
                    (case Next tarReader of
                       (Inl err, tarReader1) \<Rightarrow> (Inl err, w2)
                     | (Inr head1, tarReader1) \<Rightarrow>
                         (case Next tarReader1 of
                            (Inl err, tarReader2) \<Rightarrow> (Inl err, w2)
                          | (Inr head2, tarReader2) \<Rightarrow>
                              (Inr \<lparr>url = downloadURL,
                                    stripPrefix = Name head2,
                                    sha256 = Sprintf_x (Sum256 e b)\<rparr>, w2))))))"

definition githubTarball :: "env \<Rightarrow> string \<Rightarrow> string \<Rightarrow> world \<Rightarrow> (error + RemoteTarball) \<times> world" where
  "githubTarball e hostURL revision' w =
     (let tarball = revision' @ ''.tar.gz'' in
      case TempFile e w of
        (Inl err, w1) \<Rightarrow> (Inl err, w1)
      | (Inr filename, w1) \<Rightarrow>
          (let downloadURL = hostURL @ ''/archive/'' @ tarball in
           case inspect e filename downloadURL w1 of
             (result, w2) \<Rightarrow> (result, Remove filename w2)))"

definition googlesourceTarball :: "string \<Rightarrow> string \<Rightarrow> error + RemoteTarball" where
  "googlesourceTarball hostURL revision' =
     Inr \<lparr>url = hostURL @ ''/+archive/'' @ revision' @ ''.tar.gz'', stripPrefix = [], sha256 = []\<rparr>"

definition tryTarball :: "env \<Rightarrow> string \<Rightarrow> string \<Rightarrow> world \<Rightarrow> (error + RemoteTarball) \<times> world" where
  "tryTarball e hostURL revision' w =
     (if HasPrefix hostURL ''https://github.com/'' then githubTarball e hostURL revision' w
      else if HasPrefix hostURL ''https://go.googlesource.com/'' then
        (googlesourceTarball hostURL revision', w)
      else (Inl (Errorf ''Unknown server''), w))"

subsection \<open>Repository resolver: remoteRepository\<close>

text \<open>The result is \<open>None\<close> if the program panics, and otherwise the pair
  \<^verbatim>\<open>(RemoteRepository, error)\<close> as a sum, with the world after the call.\<close>

definition remoteRepository ::
  "env \<Rightarrow> string \<Rightarrow> string \<Rightarrow> string \<Rightarrow> world \<Rightarrow> ((error + RemoteRepository) \<times> world) option" where
  "remoteRepository e sourceURL importName revision' w = do {
     remappedURL \<leftarrow> remapURL sourceURL;
     Some (case tryTarball e remappedURL revision' w of
        (Inr tarball, w1) \<Rightarrow> (Inr (Tarball tarball), w1)
      | (Inl err, w1) \<Rightarrow>
          (case tryTarball e sourceURL revision' w1 of
             (Inr tarball, w2) \<Rightarrow> (Inr (Tarball tarball), w2)
           | (Inl err, w2) \<Rightarrow> (Inr (GitRepo \<lparr>revision = revision'\<rparr>), w2)))
   }"

subsection \<open>Descriptor renderer: GetRepoString\<close>

text \<open>The line feed \<^verbatim>\<open>\n\<close> and the double quote \<^verbatim>\<open>\"\<close> of the format strings. The verb
  \<^verbatim>\<open>%v\<close> prints a string as it is.\<close>

definition LF :: string where
  "LF = [CHR 0x0A]"

definition DQ :: string where
  "DQ = [CHR 0x22]"

definition GetRepoString_RemoteTarball :: "RemoteTarball \<Rightarrow> string \<Rightarrow> string \<Rightarrow> string" where
  "GetRepoString_RemoteTarball t name importPath =
     (let str = LF;
          str = str @ ''    go_repository('' @ LF;
          str = str @ ''        name = '' @ DQ @ name @ DQ @ '','' @ LF;
          str = str @ ''        importpath = '' @ DQ @ importPath @ DQ @ '','' @ LF;
          str = str @ ''        urls = ['' @ DQ @ url t @ DQ @ ''],'' @ LF;
          str = str @ ''        strip_prefix = '' @ DQ @ stripPrefix t @ DQ @ '','' @ LF;
          str = (if sha256 t \<noteq> [] then str @ ''        sha256 = '' @ DQ @ sha256 t @ DQ @ '','' @ LF
                 else str);
          str = str @ ''        build_file_proto_mode = '' @ DQ @ ''disable'' @ DQ @ '','' @ LF;
          str = str @ ''    )'' @ LF
      in str)"

definition GetRepoString_RemoteGitRepo :: "RemoteGitRepo \<Rightarrow> string \<Rightarrow> string \<Rightarrow> string" where
  "GetRepoString_RemoteGitRepo t name importPath =
     (let str = LF;
          str = str @ ''    go_repository('' @ LF;
          str = str @ ''        name = '' @ DQ @ name @ DQ @ '','' @ LF;
          str = str @ ''        importpath = '' @ DQ @ importPath @ DQ @ '','' @ LF;
          str = str @ ''        commit = '' @ DQ @ revision t @ DQ @ '','' @ LF;
          str = str @ ''        build_file_proto_mode = '' @ DQ @ ''disable'' @ DQ @ '','' @ LF;
          str = str @ ''    )'' @ LF
      in str)"

text \<open>The method call \<^verbatim>\<open>repo.GetRepoString(name, importPath)\<close> on the interface.\<close>

fun GetRepoString :: "RemoteRepository \<Rightarrow> string \<Rightarrow> string \<Rightarrow> string" where
  "GetRepoString (Tarball t) name importPath = GetRepoString_RemoteTarball t name importPath"
| "GetRepoString (GitRepo t) name importPath = GetRepoString_RemoteGitRepo t name importPath"

text \<open>The layout of a rule block in the words of the specification: the fields, each a
  key and a value, in the order given, one to a line.\<close>

definition quoted :: "string \<Rightarrow> string" where
  "quoted s = DQ @ s @ DQ"

definition rule_block :: "(string \<times> string) list \<Rightarrow> string" where
  "rule_block fs =
     LF @ ''    go_repository('' @ LF
     @ concat (map (\<lambda>(key, val). ''        '' @ key @ '' = '' @ val @ '','' @ LF) fs)
     @ ''    )'' @ LF"

subsection \<open>The vocabulary of the specification's error taxonomy\<close>

text \<open>
  The program has no error types of its own. An error counts as the specification's
  \<open>FetchError\<close> (network or HTTP failure) if it comes from the download, that is from
  \<^verbatim>\<open>http.Get\<close> or \<^verbatim>\<open>io.Copy\<close>, and as its \<open>ArchiveFormatError\<close> (malformed or too-short
  archive) if it comes from \<^verbatim>\<open>gzip.NewReader\<close> or from the tar reader's \<^verbatim>\<open>Next\<close>, \<^verbatim>\<open>io.EOF\<close>
  included.
\<close>

definition FetchError :: "error \<Rightarrow> bool" where
  "FetchError err = (case err of GetError msg \<Rightarrow> True | CopyError msg \<Rightarrow> True | _ \<Rightarrow> False)"

definition ArchiveFormatError :: "error \<Rightarrow> bool" where
  "ArchiveFormatError err = (case err of GzipError msg \<Rightarrow> True | TarError msg \<Rightarrow> True | _ \<Rightarrow> False)"

text \<open>
  What the world answers to a host-A probe that starts in the world \<open>w\<close> and downloads from
  \<open>downloadURL\<close>: the four calls are made at the times \<open>clock w\<close>, \<dots>, \<open>clock w + 3\<close>.
  \<^item> \<open>tempfile_ok\<close>: the temporary file is created;
  \<^item> \<open>download_ok\<close>: \<^verbatim>\<open>http.Get\<close> returns a response, of whatever status, and \<^verbatim>\<open>io.Copy\<close>
    copies its body to the file;
  \<^item> \<open>http_success\<close>: the HTTP request succeeds in the sense of the specification: a response
    arrives, its status is one of 200 to 299, and its body is copied to the file;
  \<^item> \<open>readback_ok\<close>: the file is read back;
  \<^item> \<open>downloaded\<close>: the body of the response;
  \<^item> \<open>archive_ok\<close>: the downloaded bytes pass \<^verbatim>\<open>gzip.NewReader\<close>, and the first two calls of
    \<^verbatim>\<open>Next\<close> each return an entry;
  \<^item> \<open>tar_failure\<close>: the message of the error that ends the reading of two entries from a
    tar reader, if one of the first two calls of \<^verbatim>\<open>Next\<close> fails.
\<close>

definition tempfile_ok :: "env \<Rightarrow> world \<Rightarrow> bool" where
  "tempfile_ok e w = (case TempFile_at e (clock w) of Inl msg \<Rightarrow> False | Inr name \<Rightarrow> True)"

definition download_ok :: "env \<Rightarrow> world \<Rightarrow> string \<Rightarrow> bool" where
  "download_ok e w downloadURL =
     (case Get_at e (Suc (clock w)) downloadURL of
        Inl msg \<Rightarrow> False
      | Inr resp \<Rightarrow> Copy_at e (Suc (Suc (clock w))) = None)"

definition http_success :: "env \<Rightarrow> world \<Rightarrow> string \<Rightarrow> bool" where
  "http_success e w downloadURL =
     (case Get_at e (Suc (clock w)) downloadURL of
        Inl msg \<Rightarrow> False
      | Inr resp \<Rightarrow>
          200 \<le> StatusCode resp \<and> StatusCode resp < 300
          \<and> Copy_at e (Suc (Suc (clock w))) = None)"

definition readback_ok :: "env \<Rightarrow> world \<Rightarrow> bool" where
  "readback_ok e w = (ReadFile_at e (Suc (Suc (Suc (clock w)))) = None)"

definition downloaded :: "env \<Rightarrow> world \<Rightarrow> string \<Rightarrow> byte list" where
  "downloaded e w downloadURL =
     (case Get_at e (Suc (clock w)) downloadURL of Inl msg \<Rightarrow> [] | Inr resp \<Rightarrow> Body resp)"

definition archive_ok :: "env \<Rightarrow> byte list \<Rightarrow> bool" where
  "archive_ok e b =
     (case gzip_tar e b of
        Inr (Inr head1 # Inr head2 # r) \<Rightarrow> True
      | _ \<Rightarrow> False)"

definition tar_failure :: "tar_Reader \<Rightarrow> string option" where
  "tar_failure r =
     (case r of
        [] \<Rightarrow> Some ''EOF''
      | Inl msg # r1 \<Rightarrow> Some msg
      | [Inr head1] \<Rightarrow> Some ''EOF''
      | Inr head1 # Inl msg # r2 \<Rightarrow> Some msg
      | Inr head1 # Inr head2 # r2 \<Rightarrow> None)"

text \<open>The second entry of the tar stream that the bytes \<open>b\<close> decompress to, if there are two
  entries.\<close>

definition second_entry :: "env \<Rightarrow> byte list \<Rightarrow> Header option" where
  "second_entry e b =
     (case gzip_tar e b of
        Inr (Inr head1 # Inr head2 # r) \<Rightarrow> Some head2
      | _ \<Rightarrow> None)"

subsection \<open>Sample worlds\<close>

text \<open>
  Four environments for concrete runs. In \<open>env_archive\<close> everything works: the archive that
  is served holds the entries \<open>pax_global_header\<close> and \<open>errors-abc123/\<close>, as an archive of
  github.com does, and the stand-in for the hash function returns the same 32 bytes for
  every input. In \<open>env_no_tempfile\<close> no temporary file can be created. In \<open>env_not_found\<close> the
  server answers with the status 404 and the page \<open>Not Found\<close>, which is no gzip stream. In
  \<open>env_unreadable\<close> the archive is served, but the file it was written to cannot be read.
\<close>

definition world0 :: world where
  "world0 = \<lparr>files = Map.empty, clock = 0\<rparr>"

definition env_archive :: env where
  "env_archive =
     \<lparr>TempFile_at = (\<lambda>t. Inr ''/tmp/000''),
      Get_at = (\<lambda>t u. Inr \<lparr>StatusCode = 200, Body = [31, 139, 8]\<rparr>),
      Copy_at = (\<lambda>t. None),
      ReadFile_at = (\<lambda>t. None),
      gzip_tar = (\<lambda>b. Inr [Inr \<lparr>Name = ''pax_global_header''\<rparr>,
                           Inr \<lparr>Name = ''errors-abc123/''\<rparr>,
                           Inr \<lparr>Name = ''errors-abc123/errors.go''\<rparr>]),
      Sum256 = (\<lambda>b. replicate 32 171)\<rparr>"

definition env_no_tempfile :: env where
  "env_no_tempfile =
     \<lparr>TempFile_at = (\<lambda>t. Inl ''no space left on device''),
      Get_at = (\<lambda>t u. Inl ''no such host''),
      Copy_at = (\<lambda>t. None),
      ReadFile_at = (\<lambda>t. None),
      gzip_tar = (\<lambda>b. Inl ''gzip: invalid header''),
      Sum256 = (\<lambda>b. replicate 32 171)\<rparr>"

definition env_not_found :: env where
  "env_not_found =
     \<lparr>TempFile_at = (\<lambda>t. Inr ''/tmp/000''),
      Get_at = (\<lambda>t u. Inr \<lparr>StatusCode = 404,
                              Body = [78, 111, 116, 32, 70, 111, 117, 110, 100]\<rparr>),
      Copy_at = (\<lambda>t. None),
      ReadFile_at = (\<lambda>t. None),
      gzip_tar = (\<lambda>b. Inl ''gzip: invalid header''),
      Sum256 = (\<lambda>b. replicate 32 171)\<rparr>"

definition env_unreadable :: env where
  "env_unreadable =
     \<lparr>TempFile_at = (\<lambda>t. Inr ''/tmp/000''),
      Get_at = (\<lambda>t u. Inr \<lparr>StatusCode = 200, Body = [31, 139, 8]\<rparr>),
      Copy_at = (\<lambda>t. None),
      ReadFile_at = (\<lambda>t. Some ''permission denied''),
      gzip_tar = (\<lambda>b. Inr [Inr \<lparr>Name = ''pax_global_header''\<rparr>,
                           Inr \<lparr>Name = ''errors-abc123/''\<rparr>]),
      Sum256 = (\<lambda>b. replicate 32 171)\<rparr>"

section \<open>Properties\<close>

subsection \<open>Splitting and the reversing loop\<close>

lemma genSplit_not_Nil: "genSplit cur s sep \<noteq> []"
  by (induction s arbitrary: cur) auto

lemma Split_not_Nil: "Split s sep \<noteq> []"
  by (simp add: Split_def genSplit_not_Nil)

lemma reverse_loop_rev:
  "n \<le> length hp \<Longrightarrow> reverse_loop hp n acc = Some (acc @ rev (take n hp))"
proof (induction n arbitrary: acc)
  case 0
  show ?case by simp
next
  case (Suc n)
  from Suc.prems have lt: "n < length hp" by simp
  then have "reverse_loop hp (Suc n) acc = reverse_loop hp n (acc @ [hp ! n])"
    by (simp add: index_def)
  also from lt have "\<dots> = Some ((acc @ [hp ! n]) @ rev (take n hp))"
    by (intro Suc.IH) simp
  also from lt have "(acc @ [hp ! n]) @ rev (take n hp) = acc @ rev (take (Suc n) hp)"
    by (simp add: take_Suc_conv_app_nth)
  finally show ?case .
qed

lemma genSplit_example:
  "genSplit [] ''github.com/scele/dep2bazel'' CHR ''/'' = [''github.com'', ''scele'', ''dep2bazel'']"
  by simp

lemma genSplit_example_host: "genSplit [] ''github.com'' CHR ''.'' = [''github'', ''com'']"
  by simp

subsection \<open>The bound on the iterations of a star loses no match\<close>

text \<open>An iteration that is kept shortens the input, so more iterations than the input has
  bytes change nothing.\<close>

lemma star_loop_Suc:
  "length (snd t) \<le> n \<Longrightarrow> star_loop (Suc n) step t = star_loop n step t"
proof (induction n arbitrary: t)
  case 0
  then show ?case by simp
next
  case (Suc n)
  have "map (star_loop (Suc n) step) (filter (\<lambda>t'. length (snd t') < length (snd t)) (step t)) =
        map (star_loop n step) (filter (\<lambda>t'. length (snd t') < length (snd t)) (step t))"
  proof (rule map_cong [OF refl])
    fix t'
    assume "t' \<in> set (filter (\<lambda>t'. length (snd t') < length (snd t)) (step t))"
    then have "length (snd t') < length (snd t)" by simp
    with Suc.prems have "length (snd t') \<le> n" by simp
    then show "star_loop (Suc n) step t' = star_loop n step t'" by (rule Suc.IH)
  qed
  then show ?case by (simp only: star_loop.simps)
qed

lemma star_loop_fuel:
  "star_loop (length (snd t) + k) step t = star_loop (length (snd t)) step t"
proof (induction k)
  case 0
  show ?case by simp
next
  case (Suc k)
  have "star_loop (Suc (length (snd t) + k)) step t = star_loop (length (snd t) + k) step t"
    by (rule star_loop_Suc) simp
  with Suc show ?case by simp
qed

subsection \<open>The matcher keeps the number of submatches\<close>

lemma star_loop_length:
  assumes step: "\<And>t t'. t' \<in> set (step t) \<Longrightarrow> length (fst t') = length (fst t)"
  shows "t' \<in> set (star_loop n step t) \<Longrightarrow> length (fst t') = length (fst t)"
proof (induction n arbitrary: t t')
  case 0
  then show ?case by simp
next
  case (Suc n)
  from Suc.prems consider "t' = t"
    | t'' where "t'' \<in> set (step t)" "t' \<in> set (star_loop n step t'')"
    by auto
  then show ?case
  proof cases
    case 1
    then show ?thesis by (simp only:)
  next
    case 2
    from Suc.IH [OF 2(2)] step [OF 2(1)] show ?thesis by (rule trans)
  qed
qed

lemma rep_loop_length:
  assumes step: "\<And>t t'. t' \<in> set (step t) \<Longrightarrow> length (fst t') = length (fst t)"
  shows "t' \<in> set (rep_loop n step t) \<Longrightarrow> length (fst t') = length (fst t)"
proof (induction n arbitrary: t t')
  case 0
  then show ?case by simp
next
  case (Suc n)
  from Suc.prems consider "t' = t"
    | t'' where "t'' \<in> set (step t)" "t' \<in> set (rep_loop n step t'')"
    by auto
  then show ?case
  proof cases
    case 1
    then show ?thesis by (simp only:)
  next
    case 2
    from Suc.IH [OF 2(2)] step [OF 2(1)] show ?thesis by (rule trans)
  qed
qed

lemma run_length: "t' \<in> set (run r t) \<Longrightarrow> length (fst t') = length (fst t)"
proof (induction r arbitrary: t t')
  case (Lit c)
  then show ?case by (auto split: list.splits if_splits prod.splits)
next
  case (Class rs)
  then show ?case by (auto split: list.splits if_splits prod.splits)
next
  case Empty
  then show ?case by simp
next
  case (Cat r1 r2)
  from Cat.prems obtain t'' where "t'' \<in> set (run r1 t)" "t' \<in> set (run r2 t'')"
    by auto
  from Cat.IH(2) [OF this(2)] Cat.IH(1) [OF this(1)] show ?case by (rule trans)
next
  case (Alt r1 r2)
  from Alt.prems have "t' \<in> set (run r1 t) \<or> t' \<in> set (run r2 t)" by auto
  then show ?case using Alt.IH by blast
next
  case (Opt r)
  from Opt.prems have "t' \<in> set (run r t) \<or> t' = t" by auto
  then show ?case using Opt.IH by blast
next
  case (Star r)
  from Star.prems have "t' \<in> set (star_loop (length (snd t)) (run r) t)" by simp
  then show ?case by (rule star_loop_length [rotated]) (rule Star.IH)
next
  case (Rep r k)
  from Rep.prems have "t' \<in> set (rep_loop k (run r) t)" by simp
  then show ?case by (rule rep_loop_length [rotated]) (rule Rep.IH)
next
  case (Group i r)
  obtain m s where t: "t = (m, s)" by (cases t)
  from Group.prems obtain m' s' where in_r: "(m', s') \<in> set (run r (m, s))"
    and t': "t' = (m'[i := take (length s - length s') s], s')"
    unfolding t by auto
  from Group.IH [OF in_r] show ?case unfolding t t' by simp
qed

lemma FindStringSubmatch_length:
  assumes "FindStringSubmatch re s = Some m"
  shows "length m = Suc (NumSubexp re)"
proof -
  let ?ts = "filter (\<lambda>(m, rest). rest = []) (run re (replicate (Suc (NumSubexp re)) [], s))"
  from assms obtain m0 rest ts where ts: "?ts = (m0, rest) # ts" and m: "m = m0[0 := s]"
    by (auto simp: FindStringSubmatch_def split: list.splits)
  have "(m0, rest) \<in> set ?ts" unfolding ts by simp
  then have "(m0, rest) \<in> set (run re (replicate (Suc (NumSubexp re)) [], s))" by auto
  from run_length [OF this] m show ?thesis by simp
qed

lemma NumSubexp_New: "NumSubexp gopkgInPatternNew = 4"
  by (simp add: gopkgInPatternNew_def Seq_def Str_def Plus_def version_def)

lemma NumSubexp_Old: "NumSubexp gopkgInPatternOld = 4"
  by (simp add: gopkgInPatternOld_def Seq_def Str_def Plus_def version_def)

subsection \<open>remapURL returns its argument or a github.com URL\<close>

lemma github_url_total:
  assumes "length m = 5"
  shows "\<exists>x. github_url m = Some (''https://github.com/'' @ x)"
  using assms by (simp add: github_url_def index_def)

lemma swap_2_3_total:
  assumes "length m = 5"
  shows "\<exists>m'. swap_2_3 m = Some m' \<and> length m' = 5"
  using assms by (simp add: swap_2_3_def index_def)

lemma gopkg_tail:
  assumes "HasPrefix u ''https://gopkg.in/''"
  shows "slice_from u (length ''https://gopkg.in'') = Some (drop (length ''https://gopkg.in'') u)"
proof -
  from assms have "length ''https://gopkg.in/'' \<le> length u"
    by (simp only: HasPrefix_def)
  then have "length ''https://gopkg.in'' \<le> length u" by simp
  then show ?thesis by (simp only: slice_from_def if_True)
qed

lemma remapURL_gopkg:
  assumes "HasPrefix u ''https://gopkg.in/''"
  shows "remapURL u =
     (case FindStringSubmatch gopkgInPatternNew (drop (length ''https://gopkg.in'') u) of
        Some m \<Rightarrow> github_url m
      | None \<Rightarrow>
          (case FindStringSubmatch gopkgInPatternOld (drop (length ''https://gopkg.in'') u) of
             None \<Rightarrow> Some u
           | Some m \<Rightarrow> Option.bind (swap_2_3 m) github_url))"
  unfolding remapURL_def gopkg_tail [OF assms] using assms
  by (simp only: if_True bind.bind_lunit)

lemma remapURL_cases:
  "remapURL u = Some u \<or> (\<exists>x. remapURL u = Some (''https://github.com/'' @ x))"
proof (cases "HasPrefix u ''https://gopkg.in/''")
  case gopkg: True
  let ?tail = "drop (length ''https://gopkg.in'') u"
  show ?thesis
  proof (cases "FindStringSubmatch gopkgInPatternNew ?tail")
    case (Some m)
    then have "length m = 5"
      using FindStringSubmatch_length [OF Some] by (simp add: NumSubexp_New)
    from github_url_total [OF this] Some show ?thesis
      unfolding remapURL_gopkg [OF gopkg] by auto
  next
    case new: None
    show ?thesis
    proof (cases "FindStringSubmatch gopkgInPatternOld ?tail")
      case None
      with new show ?thesis unfolding remapURL_gopkg [OF gopkg] by simp
    next
      case (Some m)
      then have "length m = 5"
        using FindStringSubmatch_length [OF Some] by (simp add: NumSubexp_Old)
      from swap_2_3_total [OF this] obtain m' where m': "swap_2_3 m = Some m'" "length m' = 5"
        by blast
      from github_url_total [OF m'(2)] new Some m'(1) show ?thesis
        unfolding remapURL_gopkg [OF gopkg] by auto
    qed
  qed
next
  case False
  then show ?thesis by (simp add: remapURL_def)
qed

lemma remapURL_returns: "\<exists>u'. remapURL u = Some u'"
  using remapURL_cases [of u] by blast

lemma github_no_rule:
  "\<not> HasPrefix (''https://github.com/'' @ x) ''https://gopkg.in/''"
  "\<not> HasPrefix (''https://github.com/'' @ x) ''https://go.googlesource.com/''"
  by (simp_all add: HasPrefix_def)

lemma remapURL_github: "remapURL (''https://github.com/'' @ x) = Some (''https://github.com/'' @ x)"
  using github_no_rule [of x] by (simp add: remapURL_def)

subsection \<open>C3: the three documented rewrites\<close>

text \<open>
  Claim C3. \<open>remapURL\<close> maps \<open>https://gopkg.in/yaml.v2\<close> to \<open>https://github.com/go-yaml/yaml\<close>
  (new-style pattern without a user), \<open>https://gopkg.in/fsnotify/fsnotify.v1\<close> to
  \<open>https://github.com/fsnotify/fsnotify\<close> (new-style pattern with a user), and
  \<open>https://go.googlesource.com/net\<close> to \<open>https://github.com/golang/net\<close> (the last path
  segment under the golang organisation).
\<close>

theorem remapURL_examples:
  "remapURL ''https://gopkg.in/yaml.v2'' = Some ''https://github.com/go-yaml/yaml''
   \<and> remapURL ''https://gopkg.in/fsnotify/fsnotify.v1'' = Some ''https://github.com/fsnotify/fsnotify''
   \<and> remapURL ''https://go.googlesource.com/net'' = Some ''https://github.com/golang/net''"
  by code_simp

subsection \<open>C9: remapURL never fails and leaves alone what no rule matches\<close>

text \<open>
  Claim C9. \<open>remapURL\<close> returns for every URL (it never panics). A URL that starts with
  neither \<open>https://gopkg.in/\<close> nor \<open>https://go.googlesource.com/\<close> is returned unchanged,
  and so is a URL that starts with \<open>https://gopkg.in/\<close> and whose tail (the URL without
  \<open>https://gopkg.in\<close>) matches neither the new-style nor the legacy pattern.
\<close>

theorem remapURL_total_and_unchanged:
  "(\<exists>u'. remapURL u = Some u')
   \<and> (\<not> HasPrefix u ''https://gopkg.in/'' \<and> \<not> HasPrefix u ''https://go.googlesource.com/''
        \<longrightarrow> remapURL u = Some u)
   \<and> (HasPrefix u ''https://gopkg.in/''
        \<and> FindStringSubmatch gopkgInPatternNew (drop (length ''https://gopkg.in'') u) = None
        \<and> FindStringSubmatch gopkgInPatternOld (drop (length ''https://gopkg.in'') u) = None
        \<longrightarrow> remapURL u = Some u)"
proof (intro conjI impI)
  show "\<exists>u'. remapURL u = Some u'" by (rule remapURL_returns)
next
  assume "\<not> HasPrefix u ''https://gopkg.in/'' \<and> \<not> HasPrefix u ''https://go.googlesource.com/''"
  then show "remapURL u = Some u" by (simp add: remapURL_def)
next
  assume h: "HasPrefix u ''https://gopkg.in/''
        \<and> FindStringSubmatch gopkgInPatternNew (drop (length ''https://gopkg.in'') u) = None
        \<and> FindStringSubmatch gopkgInPatternOld (drop (length ''https://gopkg.in'') u) = None"
  then have "HasPrefix u ''https://gopkg.in/''" by simp
  from remapURL_gopkg [OF this] h show "remapURL u = Some u" by simp
qed

theorem remapURL_total_and_unchanged_witness:
  "\<not> HasPrefix ''https://example.org/pkg'' ''https://gopkg.in/''
   \<and> \<not> HasPrefix ''https://example.org/pkg'' ''https://go.googlesource.com/''
   \<and> remapURL ''https://example.org/pkg'' = Some ''https://example.org/pkg''
   \<and> HasPrefix ''https://gopkg.in/yaml'' ''https://gopkg.in/''
   \<and> FindStringSubmatch gopkgInPatternNew ''/yaml'' = None
   \<and> FindStringSubmatch gopkgInPatternOld ''/yaml'' = None
   \<and> remapURL ''https://gopkg.in/yaml'' = Some ''https://gopkg.in/yaml''"
proof -
  have a: "\<not> HasPrefix ''https://example.org/pkg'' ''https://gopkg.in/''"
    and b: "\<not> HasPrefix ''https://example.org/pkg'' ''https://go.googlesource.com/''"
    and c: "HasPrefix ''https://gopkg.in/yaml'' ''https://gopkg.in/''"
    by (simp_all add: HasPrefix_def)
  have d: "FindStringSubmatch gopkgInPatternNew ''/yaml'' = None" by code_simp
  have e: "FindStringSubmatch gopkgInPatternOld ''/yaml'' = None" by code_simp
  have tl: "drop (length ''https://gopkg.in'') ''https://gopkg.in/yaml'' = ''/yaml''" by simp
  from remapURL_total_and_unchanged [of "''https://example.org/pkg''"] a b
  have 1: "remapURL ''https://example.org/pkg'' = Some ''https://example.org/pkg''" by blast
  from remapURL_total_and_unchanged [of "''https://gopkg.in/yaml''"] c d e
  have 2: "remapURL ''https://gopkg.in/yaml'' = Some ''https://gopkg.in/yaml''"
    unfolding tl by blast
  from a b c d e 1 2 show ?thesis by blast
qed

subsection \<open>C10: remapURL is idempotent\<close>

text \<open>
  Claim C10. For every URL, remapping the result of \<open>remapURL\<close> again changes nothing:
  a rewritten URL starts with \<open>https://github.com/\<close>, which no rule matches, and any other
  result is the argument itself.
\<close>

theorem remapURL_idempotent: "\<exists>u'. remapURL u = Some u' \<and> remapURL u' = Some u'"
  using remapURL_cases [of u] remapURL_github by metis

theorem remapURL_idempotent_witness:
  "remapURL ''https://gopkg.in/v2/yaml'' = Some ''https://github.com/go-yaml/yaml''
   \<and> remapURL ''https://github.com/go-yaml/yaml'' = Some ''https://github.com/go-yaml/yaml''"
proof -
  have 1: "remapURL ''https://gopkg.in/v2/yaml'' = Some ''https://github.com/go-yaml/yaml''"
    by code_simp
  from remapURL_idempotent [of "''https://gopkg.in/v2/yaml''"] 1 show ?thesis by simp
qed

subsection \<open>C4: bazelName is the specified naming function\<close>

text \<open>
  Claim C4. For every import path, \<open>bazelName\<close> returns (it never panics) and its result is
  the reference definition \<open>Name_spec\<close>: split on \<open>/\<close>, split the first segment on \<open>.\<close>,
  reverse the host labels, append the remaining segments, join with \<open>_\<close>, replace every
  \<open>-\<close> and \<open>.\<close> by \<open>_\<close>. In particular the name of \<open>github.com/scele/dep2bazel\<close> is
  \<open>com_github_scele_dep2bazel\<close>. The result is a function of the import path alone, so
  repeated calls agree.
\<close>

theorem bazelName_refines_spec:
  "bazelName importPath = Some (Name_spec importPath)
   \<and> bazelName ''github.com/scele/dep2bazel'' = Some ''com_github_scele_dep2bazel''"
proof
  show "bazelName importPath = Some (Name_spec importPath)"
  proof -
    obtain host rest where parts: "Split importPath CHR ''/'' = host # rest"
      using Split_not_Nil [of importPath "CHR ''/''"] by (cases "Split importPath CHR ''/''") auto
    have loop: "reverse_loop (Split host CHR ''.'') (length (Split host CHR ''.'')) []
                = Some (rev (Split host CHR ''.''))"
      using reverse_loop_rev [of "length (Split host CHR ''.'')" "Split host CHR ''.''" "[]"]
      by simp
    show ?thesis
      by (simp add: bazelName_def Name_spec_def parts loop index_def slice_from_def
          Replace_def Let_def)
  qed
next
  show "bazelName ''github.com/scele/dep2bazel'' = Some ''com_github_scele_dep2bazel''"
    by (simp add: bazelName_def Split_def index_def slice_from_def Replace_def Let_def)
qed

theorem bazelName_refines_spec_witness:
  "bazelName ''gopkg.in/yaml.v2'' = Some (Name_spec ''gopkg.in/yaml.v2'')
   \<and> Name_spec ''gopkg.in/yaml.v2'' = ''in_gopkg_yaml_v2''"
  using bazelName_refines_spec [of "''gopkg.in/yaml.v2''"]
  by (simp add: Name_spec_def Split_def Let_def)

subsection \<open>The host families exclude each other\<close>

lemma HasPrefix_shorter:
  assumes "HasPrefix s p" and "HasPrefix s q" and "length q \<le> length p"
  shows "take (length q) p = q"
proof -
  from assms(1) have p: "take (length p) s = p" by (simp add: HasPrefix_def)
  from assms(2) have q: "take (length q) s = q" by (simp add: HasPrefix_def)
  have "take (length q) p = take (length q) (take (length p) s)" by (simp only: p)
  also have "\<dots> = take (length q) s" using assms(3) by (simp add: min_def)
  finally show ?thesis by (simp only: q)
qed

lemma googlesource_not_github:
  assumes "HasPrefix h ''https://go.googlesource.com/''"
  shows "\<not> HasPrefix h ''https://github.com/''"
proof
  assume "HasPrefix h ''https://github.com/''"
  from HasPrefix_shorter [OF assms this] show False by simp
qed

subsection \<open>What a probe of github.com returns\<close>

text \<open>The result of \<open>githubTarball\<close> in terms of what the world answers: the error of the first
  call that fails, passed on unchanged, and otherwise the descriptor. The file is read back
  as it was written, so the bytes inspected and hashed are the body of the response.\<close>

lemma githubTarball_outcome:
  "fst (githubTarball e h r w) =
     (case TempFile_at e (clock w) of
        Inl msg \<Rightarrow> Inl (TempFileError msg)
      | Inr filename \<Rightarrow>
          (case Get_at e (Suc (clock w)) (h @ ''/archive/'' @ r @ ''.tar.gz'') of
             Inl msg \<Rightarrow> Inl (GetError msg)
           | Inr resp \<Rightarrow>
               (case Copy_at e (Suc (Suc (clock w))) of
                  Some (n, msg) \<Rightarrow> Inl (CopyError msg)
                | None \<Rightarrow>
                    (case ReadFile_at e (Suc (Suc (Suc (clock w)))) of
                       Some msg \<Rightarrow> Inl (ReadFileError msg)
                     | None \<Rightarrow>
                         (case gzip_tar e (Body resp) of
                            Inl msg \<Rightarrow> Inl (GzipError msg)
                          | Inr [] \<Rightarrow> Inl (TarError ''EOF'')
                          | Inr (Inl msg # r1) \<Rightarrow> Inl (TarError msg)
                          | Inr [Inr head1] \<Rightarrow> Inl (TarError ''EOF'')
                          | Inr (Inr head1 # Inl msg # r2) \<Rightarrow> Inl (TarError msg)
                          | Inr (Inr head1 # Inr head2 # r2) \<Rightarrow>
                              Inr \<lparr>url = h @ ''/archive/'' @ r @ ''.tar.gz'',
                                   stripPrefix = Name head2,
                                   sha256 = Sprintf_x (Sum256 e (Body resp))\<rparr>)))))"
  by (simp add: githubTarball_def TempFile_def inspect_def downloadFile_def ReadFile_def
      NewReader_def Next_def tick_def Let_def
      split: sum.split option.split list.split prod.split)


subsection \<open>The hexadecimal digest\<close>

lemma hex_digit_in: "hex_digit n \<in> set ''0123456789abcdef''"
  unfolding hex_digit_def by (rule nth_mem) simp

lemma Sprintf_x_hex: "set (Sprintf_x bs) \<subseteq> set ''0123456789abcdef''"
proof (induction bs)
  case Nil
  show ?case by (simp add: Sprintf_x_def)
next
  case (Cons b bs)
  have "Sprintf_x (b # bs) = hex_digit (unat b div 16) # hex_digit (unat b mod 16) # Sprintf_x bs"
    by (simp add: Sprintf_x_def)
  with Cons hex_digit_in [of "unat b div 16"] hex_digit_in [of "unat b mod 16"]
  show ?case by (simp only: set_simps insert_subset)
qed

lemma Sprintf_x_length: "length (Sprintf_x bs) = 2 * length bs"
  by (induction bs) (simp_all add: Sprintf_x_def)

lemma sample_digest:
  "Sprintf_x (replicate 32 171) =
     ''abababababababababababababababababababababababababababababababab''"
  by code_simp

lemma tryTarball_github:
  "HasPrefix h ''https://github.com/'' \<Longrightarrow> tryTarball e h r w = githubTarball e h r w"
  by (simp add: tryTarball_def)

subsection \<open>C2: the descriptor of a successful probe of github.com\<close>

text \<open>
  Claim C2. When a probe of a \<open>https://github.com/\<close> URL succeeds, the descriptor's \<open>url\<close> is
  \<open><hostURL>/archive/<revision>.tar.gz\<close>, its \<open>stripPrefix\<close> is the name of the second entry
  of the tar stream that the downloaded bytes decompress to, and its \<open>sha256\<close> is the
  hexadecimal rendering of the SHA-256 digest of all the downloaded bytes: two characters
  for each byte of the digest, all of them among \<open>0123456789abcdef\<close>. The digest is a
  function of the downloaded bytes, so hashing them again gives the same string.
\<close>

theorem host_A_probe_fields:
  assumes "HasPrefix hostURL ''https://github.com/''"
    and "fst (tryTarball e hostURL revision' w) = Inr t"
  shows "url t = hostURL @ ''/archive/'' @ revision' @ ''.tar.gz''
    \<and> map_option Name (second_entry e (downloaded e w (url t))) = Some (stripPrefix t)
    \<and> sha256 t = Sprintf_x (Sum256 e (downloaded e w (url t)))
    \<and> length (sha256 t) = 2 * length (Sum256 e (downloaded e w (url t)))
    \<and> set (sha256 t) \<subseteq> set ''0123456789abcdef''"
proof -
  from assms have res: "fst (githubTarball e hostURL revision' w) = Inr t"
    by (simp only: tryTarball_github)
  from res have u: "url t = hostURL @ ''/archive/'' @ revision' @ ''.tar.gz''"
    unfolding githubTarball_outcome
    by (auto split: sum.splits option.splits list.splits)
  from res have s2: "map_option Name (second_entry e (downloaded e w (url t))) = Some (stripPrefix t)"
    unfolding githubTarball_outcome u
    by (auto simp: second_entry_def downloaded_def split: sum.splits option.splits list.splits)
  from res have sha: "sha256 t = Sprintf_x (Sum256 e (downloaded e w (url t)))"
    unfolding githubTarball_outcome u
    by (auto simp: downloaded_def split: sum.splits option.splits list.splits)
  have len: "length (sha256 t) = 2 * length (Sum256 e (downloaded e w (url t)))"
    unfolding sha by (rule Sprintf_x_length)
  have hex: "set (sha256 t) \<subseteq> set ''0123456789abcdef''"
    unfolding sha by (rule Sprintf_x_hex)
  from u s2 sha len hex show ?thesis by (intro conjI)
qed

theorem host_A_probe_fields_witness:
  "HasPrefix ''https://github.com/pkg/errors'' ''https://github.com/''
   \<and> fst (tryTarball env_archive ''https://github.com/pkg/errors'' ''abc123'' world0) =
       Inr \<lparr>url = ''https://github.com/pkg/errors/archive/abc123.tar.gz'',
            stripPrefix = ''errors-abc123/'',
            sha256 = ''abababababababababababababababababababababababababababababababab''\<rparr>
   \<and> second_entry env_archive
         (downloaded env_archive world0 ''https://github.com/pkg/errors/archive/abc123.tar.gz'') =
       Some \<lparr>Name = ''errors-abc123/''\<rparr>
   \<and> Sum256 env_archive
         (downloaded env_archive world0 ''https://github.com/pkg/errors/archive/abc123.tar.gz'') =
       replicate 32 171"
proof -
  let ?t = "\<lparr>url = ''https://github.com/pkg/errors/archive/abc123.tar.gz'',
            stripPrefix = ''errors-abc123/'',
            sha256 = ''abababababababababababababababababababababababababababababababab''\<rparr>"
  have p: "HasPrefix ''https://github.com/pkg/errors'' ''https://github.com/''"
    by (simp add: HasPrefix_def)
  have r: "fst (tryTarball env_archive ''https://github.com/pkg/errors'' ''abc123'' world0) = Inr ?t"
    unfolding tryTarball_github [OF p] githubTarball_outcome
    by (simp add: env_archive_def world0_def sample_digest)
  from host_A_probe_fields [OF p r] show ?thesis
    using p r by (simp add: second_entry_def env_archive_def)
qed

subsection \<open>C6: a probe of go.googlesource.com\<close>

text \<open>
  Claim C6. For every URL that starts with \<open>https://go.googlesource.com/\<close> and every
  revision the probe succeeds, with the \<open>url\<close> \<open><hostURL>/+archive/<revision>.tar.gz\<close>, an
  empty \<open>stripPrefix\<close> and an empty \<open>sha256\<close>, whatever the world would answer; the world
  is left as it was, so nothing was downloaded or inspected.
\<close>

theorem host_B_probe:
  assumes "HasPrefix hostURL ''https://go.googlesource.com/''"
  shows "tryTarball e hostURL revision' w =
     (Inr \<lparr>url = hostURL @ ''/+archive/'' @ revision' @ ''.tar.gz'', stripPrefix = [], sha256 = []\<rparr>, w)"
  using assms googlesource_not_github [OF assms]
  by (simp add: tryTarball_def googlesourceTarball_def)

theorem host_B_probe_witness:
  "HasPrefix ''https://go.googlesource.com/net'' ''https://go.googlesource.com/''
   \<and> tryTarball env_no_tempfile ''https://go.googlesource.com/net'' ''abc123'' world0 =
       (Inr \<lparr>url = ''https://go.googlesource.com/net/+archive/abc123.tar.gz'',
             stripPrefix = [], sha256 = []\<rparr>, world0)"
proof -
  have p: "HasPrefix ''https://go.googlesource.com/net'' ''https://go.googlesource.com/''"
    by (simp add: HasPrefix_def)
  from host_B_probe [OF p, of env_no_tempfile "''abc123''" world0] p show ?thesis by simp
qed

subsection \<open>C7: any other host\<close>

text \<open>
  Claim C7. For every URL that starts with neither \<open>https://github.com/\<close> nor
  \<open>https://go.googlesource.com/\<close> the probe fails with the error \<open>Unknown server\<close>; the world
  is left as it was, so the network was not used.
\<close>

theorem unsupported_host:
  assumes "\<not> HasPrefix hostURL ''https://github.com/''"
    and "\<not> HasPrefix hostURL ''https://go.googlesource.com/''"
  shows "tryTarball e hostURL revision' w = (Inl (Errorf ''Unknown server''), w)"
  using assms by (simp add: tryTarball_def)

theorem unsupported_host_witness:
  "\<not> HasPrefix ''https://example.org/pkg'' ''https://github.com/''
   \<and> \<not> HasPrefix ''https://example.org/pkg'' ''https://go.googlesource.com/''
   \<and> tryTarball env_archive ''https://example.org/pkg'' ''abc123'' world0 =
       (Inl (Errorf ''Unknown server''), world0)"
proof -
  have a: "\<not> HasPrefix ''https://example.org/pkg'' ''https://github.com/''"
    and b: "\<not> HasPrefix ''https://example.org/pkg'' ''https://go.googlesource.com/''"
    by (simp_all add: HasPrefix_def)
  from unsupported_host [OF a b, of env_archive "''abc123''" world0] a b show ?thesis by simp
qed

subsection \<open>C8: how a probe of github.com fails\<close>

text \<open>
  Claim C8 says that a probe of github.com fails with a \<open>FetchError\<close> exactly when the HTTP
  request does not succeed, with an \<open>ArchiveFormatError\<close> exactly when decompression fails or
  the archive has fewer than two entries, and in no other way. Three runs show otherwise.
  Where no temporary file can be created the probe fails before any request is made, with
  the error of \<^verbatim>\<open>ioutil.TempFile\<close>; where the downloaded file cannot be read back it fails with
  the error of \<^verbatim>\<open>ioutil.ReadFile\<close>; neither is a fetch error or an archive error. And where the
  server answers 404 the request has not succeeded, yet the probe downloads the error page
  and fails on it with the error of \<^verbatim>\<open>gzip.NewReader\<close>, which is no fetch error.
\<close>

theorem host_A_failure_modes_counterexample:
  "HasPrefix ''https://github.com/pkg/errors'' ''https://github.com/''
   \<and> fst (tryTarball env_no_tempfile ''https://github.com/pkg/errors'' ''abc123'' world0) =
       Inl (TempFileError ''no space left on device'')
   \<and> \<not> FetchError (TempFileError ''no space left on device'')
   \<and> \<not> ArchiveFormatError (TempFileError ''no space left on device'')
   \<and> fst (tryTarball env_unreadable ''https://github.com/pkg/errors'' ''abc123'' world0) =
       Inl (ReadFileError ''permission denied'')
   \<and> \<not> FetchError (ReadFileError ''permission denied'')
   \<and> \<not> ArchiveFormatError (ReadFileError ''permission denied'')
   \<and> \<not> http_success env_not_found world0 ''https://github.com/pkg/errors/archive/abc123.tar.gz''
   \<and> fst (tryTarball env_not_found ''https://github.com/pkg/errors'' ''abc123'' world0) =
       Inl (GzipError ''gzip: invalid header'')
   \<and> \<not> FetchError (GzipError ''gzip: invalid header'')"
proof -
  have p: "HasPrefix ''https://github.com/pkg/errors'' ''https://github.com/''"
    by (simp add: HasPrefix_def)
  have 1: "fst (tryTarball env_no_tempfile ''https://github.com/pkg/errors'' ''abc123'' world0) =
       Inl (TempFileError ''no space left on device'')"
    unfolding tryTarball_github [OF p] githubTarball_outcome
    by (simp add: env_no_tempfile_def world0_def)
  have 2: "fst (tryTarball env_unreadable ''https://github.com/pkg/errors'' ''abc123'' world0) =
       Inl (ReadFileError ''permission denied'')"
    unfolding tryTarball_github [OF p] githubTarball_outcome
    by (simp add: env_unreadable_def world0_def)
  have 3: "fst (tryTarball env_not_found ''https://github.com/pkg/errors'' ''abc123'' world0) =
       Inl (GzipError ''gzip: invalid header'')"
    unfolding tryTarball_github [OF p] githubTarball_outcome
    by (simp add: env_not_found_def world0_def)
  have 4: "\<not> http_success env_not_found world0
             ''https://github.com/pkg/errors/archive/abc123.tar.gz''"
    by (simp add: http_success_def env_not_found_def world0_def)
  have 5: "\<not> FetchError (TempFileError ''no space left on device'')"
    "\<not> ArchiveFormatError (TempFileError ''no space left on device'')"
    "\<not> FetchError (ReadFileError ''permission denied'')"
    "\<not> ArchiveFormatError (ReadFileError ''permission denied'')"
    "\<not> FetchError (GzipError ''gzip: invalid header'')"
    by (simp_all add: FetchError_def ArchiveFormatError_def)
  from p 1 2 3 4 5 show ?thesis by (intro conjI)
qed

text \<open>
  Claim C8, amended. A probe of a \<open>https://github.com/\<close> URL calls, in this order,
  \<^verbatim>\<open>ioutil.TempFile\<close>, \<^verbatim>\<open>http.Get\<close> on \<open><hostURL>/archive/<revision>.tar.gz\<close>, \<^verbatim>\<open>io.Copy\<close> of the
  response's body to the file, \<^verbatim>\<open>ioutil.ReadFile\<close>, \<^verbatim>\<open>gzip.NewReader\<close> and twice the tar reader's
  \<^verbatim>\<open>Next\<close>. It fails exactly when one of these calls returns an error, and then with the
  error of the first call that does, message and all; it never fails with the error of an
  unsupported host. So it fails with a fetch error exactly when the file was created and
  \<^verbatim>\<open>http.Get\<close> or \<^verbatim>\<open>io.Copy\<close> returns an error, whatever the status of a response that arrives;
  with an archive error exactly when the first three steps succeed and \<^verbatim>\<open>gzip.NewReader\<close> or
  one of the two calls of \<^verbatim>\<open>Next\<close> returns an error, the end of the archive included; with
  another error exactly when the temporary file cannot be created or, after a download
  that succeeded, cannot be read back; and it succeeds exactly when no call fails.
\<close>

theorem host_A_failure_modes:
  assumes "HasPrefix hostURL ''https://github.com/''"
    and "downloadURL = hostURL @ ''/archive/'' @ revision' @ ''.tar.gz''"
    and "result = fst (tryTarball e hostURL revision' w)"
  shows "((result = Inl (TempFileError msg)) = (TempFile_at e (clock w) = Inl msg))
    \<and> ((result = Inl (GetError msg)) =
          (tempfile_ok e w \<and> Get_at e (Suc (clock w)) downloadURL = Inl msg))
    \<and> ((result = Inl (CopyError msg)) =
          (tempfile_ok e w \<and> (\<exists>resp. Get_at e (Suc (clock w)) downloadURL = Inr resp)
           \<and> (\<exists>n. Copy_at e (Suc (Suc (clock w))) = Some (n, msg))))
    \<and> ((result = Inl (ReadFileError msg)) =
          (tempfile_ok e w \<and> download_ok e w downloadURL
           \<and> ReadFile_at e (Suc (Suc (Suc (clock w)))) = Some msg))
    \<and> ((result = Inl (GzipError msg)) =
          (tempfile_ok e w \<and> download_ok e w downloadURL \<and> readback_ok e w
           \<and> gzip_tar e (downloaded e w downloadURL) = Inl msg))
    \<and> ((result = Inl (TarError msg)) =
          (tempfile_ok e w \<and> download_ok e w downloadURL \<and> readback_ok e w
           \<and> (\<exists>r. gzip_tar e (downloaded e w downloadURL) = Inr r \<and> tar_failure r = Some msg)))
    \<and> result \<noteq> Inl (Errorf msg)
    \<and> ((\<exists>err. result = Inl err \<and> FetchError err) =
          (tempfile_ok e w \<and> \<not> download_ok e w downloadURL))
    \<and> ((\<exists>err. result = Inl err \<and> ArchiveFormatError err) =
          (tempfile_ok e w \<and> download_ok e w downloadURL \<and> readback_ok e w
           \<and> \<not> archive_ok e (downloaded e w downloadURL)))
    \<and> ((\<exists>err. result = Inl err \<and> \<not> FetchError err \<and> \<not> ArchiveFormatError err) =
          (\<not> tempfile_ok e w
           \<or> (tempfile_ok e w \<and> download_ok e w downloadURL \<and> \<not> readback_ok e w)))
    \<and> ((\<exists>t. result = Inr t) =
          (tempfile_ok e w \<and> download_ok e w downloadURL \<and> readback_ok e w
           \<and> archive_ok e (downloaded e w downloadURL)))"
proof -
  have res: "result = fst (githubTarball e hostURL revision' w)"
    using assms(1,3) by (simp only: tryTarball_github)
  note defs = tempfile_ok_def download_ok_def readback_ok_def archive_ok_def downloaded_def
    tar_failure_def
  have 1: "(result = Inl (TempFileError msg)) = (TempFile_at e (clock w) = Inl msg)"
    unfolding res githubTarball_outcome assms(2)
    by (simp add: defs split: sum.split option.split list.split prod.split)
  have 2: "(result = Inl (GetError msg)) =
          (tempfile_ok e w \<and> Get_at e (Suc (clock w)) downloadURL = Inl msg)"
    unfolding res githubTarball_outcome assms(2)
    by (simp add: defs split: sum.split option.split list.split prod.split)
  have 3: "(result = Inl (CopyError msg)) =
          (tempfile_ok e w \<and> (\<exists>resp. Get_at e (Suc (clock w)) downloadURL = Inr resp)
           \<and> (\<exists>n. Copy_at e (Suc (Suc (clock w))) = Some (n, msg)))"
    unfolding res githubTarball_outcome assms(2)
    by (simp add: defs split: sum.split option.split list.split prod.split)
  have 4: "(result = Inl (ReadFileError msg)) =
          (tempfile_ok e w \<and> download_ok e w downloadURL
           \<and> ReadFile_at e (Suc (Suc (Suc (clock w)))) = Some msg)"
    unfolding res githubTarball_outcome assms(2)
    by (simp add: defs split: sum.split option.split list.split prod.split)
  have 5: "(result = Inl (GzipError msg)) =
          (tempfile_ok e w \<and> download_ok e w downloadURL \<and> readback_ok e w
           \<and> gzip_tar e (downloaded e w downloadURL) = Inl msg)"
    unfolding res githubTarball_outcome assms(2)
    by (simp add: defs split: sum.split option.split list.split prod.split)
  have 6: "(result = Inl (TarError msg)) =
          (tempfile_ok e w \<and> download_ok e w downloadURL \<and> readback_ok e w
           \<and> (\<exists>r. gzip_tar e (downloaded e w downloadURL) = Inr r \<and> tar_failure r = Some msg))"
    unfolding res githubTarball_outcome assms(2)
    by (simp add: defs split: sum.split option.split list.split prod.split)
  have 7: "result \<noteq> Inl (Errorf msg)"
    unfolding res githubTarball_outcome assms(2)
    by (simp add: defs split: sum.split option.split list.split prod.split)
  have 8: "(\<exists>err. result = Inl err \<and> FetchError err) =
          (tempfile_ok e w \<and> \<not> download_ok e w downloadURL)"
    unfolding res githubTarball_outcome assms(2)
    by (simp add: defs FetchError_def split: sum.split option.split list.split prod.split)
  have 9: "(\<exists>err. result = Inl err \<and> ArchiveFormatError err) =
          (tempfile_ok e w \<and> download_ok e w downloadURL \<and> readback_ok e w
           \<and> \<not> archive_ok e (downloaded e w downloadURL))"
    unfolding res githubTarball_outcome assms(2)
    by (simp add: defs ArchiveFormatError_def split: sum.split option.split list.split prod.split)
  have 10: "(\<exists>err. result = Inl err \<and> \<not> FetchError err \<and> \<not> ArchiveFormatError err) =
          (\<not> tempfile_ok e w
           \<or> (tempfile_ok e w \<and> download_ok e w downloadURL \<and> \<not> readback_ok e w))"
    unfolding res githubTarball_outcome assms(2)
    by (simp add: defs FetchError_def ArchiveFormatError_def
        split: sum.split option.split list.split prod.split)
  have 11: "(\<exists>t. result = Inr t) =
          (tempfile_ok e w \<and> download_ok e w downloadURL \<and> readback_ok e w
           \<and> archive_ok e (downloaded e w downloadURL))"
    unfolding res githubTarball_outcome assms(2)
    by (simp add: defs split: sum.split option.split list.split prod.split)
  from 1 2 3 4 5 6 7 8 9 10 11 show ?thesis by (intro conjI)
qed


theorem host_A_failure_modes_witness:
  "HasPrefix ''https://github.com/pkg/errors'' ''https://github.com/''
   \<and> tempfile_ok env_archive world0
   \<and> download_ok env_archive world0 ''https://github.com/pkg/errors/archive/abc123.tar.gz''
   \<and> readback_ok env_archive world0
   \<and> archive_ok env_archive
        (downloaded env_archive world0 ''https://github.com/pkg/errors/archive/abc123.tar.gz'')
   \<and> (\<exists>t. fst (tryTarball env_archive ''https://github.com/pkg/errors'' ''abc123'' world0) = Inr t)
   \<and> tempfile_ok env_not_found world0
   \<and> download_ok env_not_found world0 ''https://github.com/pkg/errors/archive/abc123.tar.gz''
   \<and> readback_ok env_not_found world0
   \<and> gzip_tar env_not_found
        (downloaded env_not_found world0 ''https://github.com/pkg/errors/archive/abc123.tar.gz'')
       = Inl ''gzip: invalid header''
   \<and> fst (tryTarball env_not_found ''https://github.com/pkg/errors'' ''abc123'' world0) =
       Inl (GzipError ''gzip: invalid header'')
   \<and> TempFile_at env_no_tempfile (clock world0) = Inl ''no space left on device''
   \<and> fst (tryTarball env_no_tempfile ''https://github.com/pkg/errors'' ''abc123'' world0) =
       Inl (TempFileError ''no space left on device'')"
proof -
  have p: "HasPrefix ''https://github.com/pkg/errors'' ''https://github.com/''"
    by (simp add: HasPrefix_def)
  have u: "''https://github.com/pkg/errors/archive/abc123.tar.gz'' =
           ''https://github.com/pkg/errors'' @ ''/archive/'' @ ''abc123'' @ ''.tar.gz''"
    by simp
  have ok: "tempfile_ok env_archive world0"
    "download_ok env_archive world0 ''https://github.com/pkg/errors/archive/abc123.tar.gz''"
    "readback_ok env_archive world0"
    "archive_ok env_archive
        (downloaded env_archive world0 ''https://github.com/pkg/errors/archive/abc123.tar.gz'')"
    by (simp_all add: tempfile_ok_def download_ok_def readback_ok_def archive_ok_def
        downloaded_def env_archive_def world0_def)
  have nf: "tempfile_ok env_not_found world0"
    "download_ok env_not_found world0 ''https://github.com/pkg/errors/archive/abc123.tar.gz''"
    "readback_ok env_not_found world0"
    "gzip_tar env_not_found
        (downloaded env_not_found world0 ''https://github.com/pkg/errors/archive/abc123.tar.gz'')
       = Inl ''gzip: invalid header''"
    by (simp_all add: tempfile_ok_def download_ok_def readback_ok_def
        downloaded_def env_not_found_def world0_def)
  have no: "TempFile_at env_no_tempfile (clock world0) = Inl ''no space left on device''"
    by (simp add: env_no_tempfile_def)
  from host_A_failure_modes [OF p u refl, of env_archive world0] ok
  have 1: "\<exists>t. fst (tryTarball env_archive ''https://github.com/pkg/errors'' ''abc123'' world0) = Inr t"
    by blast
  from host_A_failure_modes [OF p u refl, of env_not_found world0 "''gzip: invalid header''"] nf
  have 2: "fst (tryTarball env_not_found ''https://github.com/pkg/errors'' ''abc123'' world0) =
       Inl (GzipError ''gzip: invalid header'')"
    by blast
  from host_A_failure_modes [OF p u refl, of env_no_tempfile world0 "''no space left on device''"] no
  have 3: "fst (tryTarball env_no_tempfile ''https://github.com/pkg/errors'' ''abc123'' world0) =
       Inl (TempFileError ''no space left on device'')"
    by blast
  from p ok nf no 1 2 3 show ?thesis by (intro conjI)
qed

subsection \<open>C1: remoteRepository always returns a descriptor\<close>

text \<open>
  Claim C1. For every source URL and revision, in every world, \<open>remoteRepository\<close> returns a
  descriptor and never an error (nor does it panic): the tarball of the probe of the
  remapped URL if that probe succeeds; otherwise the tarball of the probe of the original
  URL, made in the world the first probe left, if that succeeds; otherwise the git
  descriptor that carries exactly the revision given.
\<close>

theorem remoteRepository_total:
  "\<exists>remappedURL repo w'.
     remapURL sourceURL = Some remappedURL
     \<and> remoteRepository e sourceURL importName revision' w = Some (Inr repo, w')
     \<and> repo =
         (case tryTarball e remappedURL revision' w of
            (Inr tarball, w1) \<Rightarrow> Tarball tarball
          | (Inl err, w1) \<Rightarrow>
              (case tryTarball e sourceURL revision' w1 of
                 (Inr tarball, w2) \<Rightarrow> Tarball tarball
               | (Inl err, w2) \<Rightarrow> GitRepo \<lparr>revision = revision'\<rparr>))"
proof -
  from remapURL_returns obtain remappedURL where r: "remapURL sourceURL = Some remappedURL"
    by blast
  show ?thesis
    unfolding remoteRepository_def r
    by (simp split: prod.split sum.split)
qed

theorem remoteRepository_total_witness:
  "map_option fst (remoteRepository env_no_tempfile ''https://go.googlesource.com/net''
      ''golang.org/x/net'' ''abc123'' world0) =
     Some (Inr (Tarball \<lparr>url = ''https://go.googlesource.com/net/+archive/abc123.tar.gz'',
                         stripPrefix = [], sha256 = []\<rparr>))
   \<and> map_option fst (remoteRepository env_archive ''https://example.org/pkg''
      ''example.org/pkg'' ''abc123'' world0) =
     Some (Inr (GitRepo \<lparr>revision = ''abc123''\<rparr>))"
proof -
  have r1: "remapURL ''https://go.googlesource.com/net'' = Some ''https://github.com/golang/net''"
    by code_simp
  have r2: "remapURL ''https://example.org/pkg'' = Some ''https://example.org/pkg''"
    by code_simp
  have g: "HasPrefix ''https://github.com/golang/net'' ''https://github.com/''"
    by (simp add: HasPrefix_def)
  have t1: "fst (tryTarball env_no_tempfile ''https://github.com/golang/net'' ''abc123'' world0) =
      Inl (TempFileError ''no space left on device'')"
    unfolding tryTarball_github [OF g] githubTarball_outcome
    by (simp add: env_no_tempfile_def world0_def)
  have t2: "\<And>w1. fst (tryTarball env_no_tempfile ''https://go.googlesource.com/net'' ''abc123'' w1) =
      Inr \<lparr>url = ''https://go.googlesource.com/net/+archive/abc123.tar.gz'',
           stripPrefix = [], sha256 = []\<rparr>"
    by (simp add: tryTarball_def HasPrefix_def googlesourceTarball_def)
  have t3: "\<And>w1. fst (tryTarball env_archive ''https://example.org/pkg'' ''abc123'' w1) =
      Inl (Errorf ''Unknown server'')"
    by (simp add: tryTarball_def HasPrefix_def)
  obtain w1 where a1: "tryTarball env_no_tempfile ''https://github.com/golang/net'' ''abc123'' world0 =
      (Inl (TempFileError ''no space left on device''), w1)"
    using t1 by (cases "tryTarball env_no_tempfile ''https://github.com/golang/net'' ''abc123'' world0")
      simp
  obtain w2 where a2: "tryTarball env_no_tempfile ''https://go.googlesource.com/net'' ''abc123'' w1 =
      (Inr \<lparr>url = ''https://go.googlesource.com/net/+archive/abc123.tar.gz'',
            stripPrefix = [], sha256 = []\<rparr>, w2)"
    using t2 [of w1]
    by (cases "tryTarball env_no_tempfile ''https://go.googlesource.com/net'' ''abc123'' w1") simp
  obtain w3 where b1: "tryTarball env_archive ''https://example.org/pkg'' ''abc123'' world0 =
      (Inl (Errorf ''Unknown server''), w3)"
    using t3 [of world0]
    by (cases "tryTarball env_archive ''https://example.org/pkg'' ''abc123'' world0") simp
  obtain w4 where b2: "tryTarball env_archive ''https://example.org/pkg'' ''abc123'' w3 =
      (Inl (Errorf ''Unknown server''), w4)"
    using t3 [of w3]
    by (cases "tryTarball env_archive ''https://example.org/pkg'' ''abc123'' w3") simp
  from remoteRepository_total [of "''https://go.googlesource.com/net''" env_no_tempfile
      "''golang.org/x/net''" "''abc123''" world0]
  have 1: "map_option fst (remoteRepository env_no_tempfile ''https://go.googlesource.com/net''
      ''golang.org/x/net'' ''abc123'' world0) =
     Some (Inr (Tarball \<lparr>url = ''https://go.googlesource.com/net/+archive/abc123.tar.gz'',
                         stripPrefix = [], sha256 = []\<rparr>))"
    unfolding r1 by (auto simp: a1 a2)
  from remoteRepository_total [of "''https://example.org/pkg''" env_archive
      "''example.org/pkg''" "''abc123''" world0]
  have 2: "map_option fst (remoteRepository env_archive ''https://example.org/pkg''
      ''example.org/pkg'' ''abc123'' world0) =
     Some (Inr (GitRepo \<lparr>revision = ''abc123''\<rparr>))"
    unfolding r2 by (auto simp: b1 b2)
  from 1 2 show ?thesis by (rule conjI)
qed

subsection \<open>C5: the layout of a rendered rule\<close>

text \<open>
  Claim C5. \<open>GetRepoString\<close> is defined for every descriptor, name and import path. For a
  tarball the block holds, in this order, \<open>name\<close>, \<open>importpath\<close>, \<open>urls\<close> as a list of one
  element, \<open>strip_prefix\<close>, then \<open>sha256\<close> if and only if the checksum is not empty, then the
  line \<open>build_file_proto_mode = "disable"\<close>. For a git descriptor it holds \<open>name\<close>,
  \<open>importpath\<close>, \<open>commit\<close> with the revision stored, and the same last line, and none of
  \<open>urls\<close>, \<open>strip_prefix\<close>, \<open>sha256\<close>.
\<close>

theorem GetRepoString_layout:
  "GetRepoString (Tarball t) name importPath =
     rule_block
       ([(''name'', quoted name),
         (''importpath'', quoted importPath),
         (''urls'', ''['' @ quoted (url t) @ '']''),
         (''strip_prefix'', quoted (stripPrefix t))]
        @ (if sha256 t \<noteq> [] then [(''sha256'', quoted (sha256 t))] else [])
        @ [(''build_file_proto_mode'', quoted ''disable'')])
   \<and> GetRepoString (GitRepo g) name importPath =
     rule_block
       [(''name'', quoted name),
        (''importpath'', quoted importPath),
        (''commit'', quoted (revision g)),
        (''build_file_proto_mode'', quoted ''disable'')]"
  by (simp add: GetRepoString_RemoteTarball_def GetRepoString_RemoteGitRepo_def
      rule_block_def quoted_def Let_def)

theorem GetRepoString_layout_witness:
  "GetRepoString (Tarball \<lparr>url = ''https://go.googlesource.com/net/+archive/abc123.tar.gz'',
                          stripPrefix = [], sha256 = []\<rparr>) ''org_golang_x_net'' ''golang.org/x/net'' =
     LF @ ''    go_repository('' @ LF
     @ ''        name = '' @ DQ @ ''org_golang_x_net'' @ DQ @ '','' @ LF
     @ ''        importpath = '' @ DQ @ ''golang.org/x/net'' @ DQ @ '','' @ LF
     @ ''        urls = ['' @ DQ @ ''https://go.googlesource.com/net/+archive/abc123.tar.gz'' @ DQ
         @ ''],'' @ LF
     @ ''        strip_prefix = '' @ DQ @ DQ @ '','' @ LF
     @ ''        build_file_proto_mode = '' @ DQ @ ''disable'' @ DQ @ '','' @ LF
     @ ''    )'' @ LF
   \<and> GetRepoString (GitRepo \<lparr>revision = ''abc123''\<rparr>) ''org_example_pkg'' ''example.org/pkg'' =
     LF @ ''    go_repository('' @ LF
     @ ''        name = '' @ DQ @ ''org_example_pkg'' @ DQ @ '','' @ LF
     @ ''        importpath = '' @ DQ @ ''example.org/pkg'' @ DQ @ '','' @ LF
     @ ''        commit = '' @ DQ @ ''abc123'' @ DQ @ '','' @ LF
     @ ''        build_file_proto_mode = '' @ DQ @ ''disable'' @ DQ @ '','' @ LF
     @ ''    )'' @ LF"
  using GetRepoString_layout
    [of "\<lparr>url = ''https://go.googlesource.com/net/+archive/abc123.tar.gz'',
          stripPrefix = [], sha256 = []\<rparr>" "''org_golang_x_net''" "''golang.org/x/net''"]
    GetRepoString_layout
    [of _ "''org_example_pkg''" "''example.org/pkg''" "\<lparr>revision = ''abc123''\<rparr>"]
  by (simp add: rule_block_def quoted_def)

end
